theory Spec2Isabelle
  imports Complex_Main "HOL-Library.Word"
begin

section \<open>Speech-to-speech translator: the request orchestration of app.py\<close>

text \<open>
  The program is glue around external collaborators: the pydub decoder, the Google Cloud
  speech, storage, translation and text-to-speech clients, the Streamlit widgets and the
  clock. The collaborators are the fields of a record \<open>env\<close>; each of them answers a
  request either with a value (\<open>Inr\<close>) or by raising an exception (\<open>Inl\<close>). What the
  program itself does is a list of events, in program order: the widgets it renders and
  the service calls it issues, each call with all of its arguments.

  Python's \<open>str\<close> is modelled by \<open>string\<close> (read as UTF-8), \<open>bytes\<close> by a list of 8-bit
  words. The floats of the program are the quotient \<open>len(audio_segment) / 1000.0\<close> and the
  clock value \<open>time.time()\<close>; both are modelled by rationals. For a millisecond count
  below \<open>2^53\<close> the correctly rounded quotient is below \<open>60.0\<close> exactly when the count is
  below \<open>60000\<close>, so the comparison of line 65 is the comparison of the rationals.
\<close>

subsection \<open>Values\<close>

type_synonym bytes = "8 word list"

text \<open>An instance of \<open>Exception\<close>: its class name and \<open>str(e)\<close>.\<close>

datatype py_exception = PyException (exc_class: string) (exc_str: string)

text \<open>pydub's \<open>AudioSegment\<close>; \<open>seg_len\<close> is \<open>len(segment)\<close>, the duration in milliseconds.\<close>

record audio_segment =
  channels :: nat
  frame_rate :: nat
  sample_width :: nat
  seg_len :: nat
  raw_data :: bytes

datatype audio_encoding = ENCODING_UNSPECIFIED | LINEAR16 | FLAC | MULAW

text \<open>\<open>speech.RecognitionConfig\<close>; a boolean field that is not given is \<open>False\<close>.\<close>

record recognition_config =
  encoding :: audio_encoding
  sample_rate_hertz :: nat
  language_code :: string
  enable_automatic_punctuation :: bool

datatype recognition_audio = Content bytes | Uri string

record speech_alternative =
  transcript :: string

record speech_result =
  alternatives :: "speech_alternative list"

record recognize_response =
  results :: "speech_result list"

datatype ssml_voice_gender = SSML_VOICE_GENDER_UNSPECIFIED | MALE | FEMALE | NEUTRAL

datatype tts_audio_encoding = AUDIO_ENCODING_UNSPECIFIED | TTS_LINEAR16 | MP3 | OGG_OPUS

record synthesis_input =
  input_text :: string

record voice_selection_params =
  voice_language_code :: string
  ssml_gender :: ssml_voice_gender

record audio_config =
  audio_encoding :: tts_audio_encoding

record synthesize_speech_response =
  audio_content :: bytes

datatype client_kind = SpeechClient | TranslateClient | TextToSpeechClient | StorageClient

type_synonym credentials = nat
type_synonym operation = nat

subsection \<open>Events\<close>

text \<open>
  A call to a collaborator outside the process, with the arguments the source passes.
  \<open>UploadFromString bucket blob data content_type\<close>;
  \<open>Translate values target_language source_language\<close>, where a keyword the source does
  not pass is \<open>None\<close>.
\<close>

datatype call =
    SecretsContains string
  | SecretsGet string
  | FromServiceAccountInfo string
  | PathExists string
  | FromServiceAccountFile string "string list"
  | NewClient client_kind credentials
  | Recognize recognition_config recognition_audio
  | LongRunningRecognize recognition_config recognition_audio
  | OperationResult operation
  | UploadFromString string string bytes string
  | Translate string string "string option"
  | SynthesizeSpeech synthesis_input voice_selection_params audio_config

text \<open>
  \<open>Call c t\<close>: the call \<open>c\<close>, with the \<open>timeout=\<close> keyword of the call site (\<open>None\<close> where
  the source gives none). The other events are the Streamlit widgets.
\<close>

datatype event =
    Call call "nat option"
  | StSetPageConfig string string string
  | StTitle string
  | StMarkdown string
  | StDivider
  | StRadio string "string list"
  | StFileUploader string "string list"
  | StButton string
  | StSpinner string
  | StWrite string
  | StInfo string
  | StWarning string
  | StError string
  | StSuccess string
  | StTextArea string "string option" nat
  | StSubheader string
  | StAudio bytes string
  | StBalloons

subsection \<open>The collaborators\<close>

record env =
  secrets_contains :: "string \<Rightarrow> py_exception + bool"
  secrets_get :: "string \<Rightarrow> py_exception + string"
  from_service_account_info :: "string \<Rightarrow> py_exception + credentials"
  path_exists :: "string \<Rightarrow> bool"
  from_service_account_file :: "string \<Rightarrow> string list \<Rightarrow> py_exception + credentials"
  new_client :: "client_kind \<Rightarrow> credentials \<Rightarrow> py_exception + unit"
  from_file :: "bytes \<Rightarrow> py_exception + audio_segment"
  set_channels :: "nat \<Rightarrow> audio_segment \<Rightarrow> py_exception + audio_segment"
  set_frame_rate :: "nat \<Rightarrow> audio_segment \<Rightarrow> py_exception + audio_segment"
  export :: "audio_segment \<Rightarrow> string \<Rightarrow> py_exception + bytes"
  format_2f :: "rat \<Rightarrow> string"
  time_time :: rat
  upload_from_string :: "string \<Rightarrow> string \<Rightarrow> bytes \<Rightarrow> string \<Rightarrow> py_exception + unit"
  recognize :: "recognition_config \<Rightarrow> recognition_audio \<Rightarrow> py_exception + recognize_response"
  long_running_recognize :: "recognition_config \<Rightarrow> recognition_audio \<Rightarrow> py_exception + operation"
  operation_result :: "operation \<Rightarrow> nat option \<Rightarrow> py_exception + recognize_response"
  index_error_text :: string
  translate :: "string \<Rightarrow> string \<Rightarrow> string option \<Rightarrow> py_exception + (string \<times> string) list"
  synthesize_speech ::
    "synthesis_input \<Rightarrow> voice_selection_params \<Rightarrow> audio_config
      \<Rightarrow> py_exception + synthesize_speech_response"

subsection \<open>Running a script: events and outcome\<close>

text \<open>
  A piece of the script returns a value, raises an exception, or is stopped by \<open>st.stop()\<close>
  (Streamlit's stop signal is not an \<open>Exception\<close>, so \<open>except Exception\<close> lets it pass).
\<close>

datatype 'a outcome = Returned 'a | Raised py_exception | Stopped

type_synonym 'a io = "event list \<times> 'a outcome"

definition io_return :: "'a \<Rightarrow> 'a io" where
  "io_return x = ([], Returned x)"

definition emit :: "event \<Rightarrow> unit io" where
  "emit e = ([e], Returned ())"


definition lib :: "py_exception + 'a \<Rightarrow> 'a io" where
  "lib r = ([], case r of Inl e \<Rightarrow> Raised e | Inr v \<Rightarrow> Returned v)"

definition call :: "call \<Rightarrow> nat option \<Rightarrow> py_exception + 'a \<Rightarrow> 'a io" where
  "call c t r = ([Call c t], case r of Inl e \<Rightarrow> Raised e | Inr v \<Rightarrow> Returned v)"

fun io_bind :: "'a io \<Rightarrow> ('a \<Rightarrow> 'b io) \<Rightarrow> 'b io" where
  "io_bind (es, Returned x) f = (case f x of (es', r) \<Rightarrow> (es @ es', r))"
| "io_bind (es, Raised e) f = (es, Raised e)"
| "io_bind (es, Stopped) f = (es, Stopped)"

text \<open>\<open>try: body except Exception as e: handler\<close>\<close>

fun try_except :: "'a io \<Rightarrow> (py_exception \<Rightarrow> 'a io) \<Rightarrow> 'a io" where
  "try_except (es, Raised e) h = (case h e of (es', r) \<Rightarrow> (es @ es', r))"
| "try_except (es, Returned x) h = (es, Returned x)"
| "try_except (es, Stopped) h = (es, Stopped)"

definition events :: "'a io \<Rightarrow> event list" where
  "events p = fst p"

definition outcome :: "'a io \<Rightarrow> 'a outcome" where
  "outcome p = snd p"

subsection \<open>Python helpers\<close>

text \<open>\<open>int(x)\<close> of a float truncates towards zero.\<close>

definition py_int :: "rat \<Rightarrow> int" where
  "py_int x = (if 0 \<le> x then \<lfloor>x\<rfloor> else \<lceil>x\<rceil>)"

definition digit_char :: "nat \<Rightarrow> char" where
  "digit_char d = ''0123456789'' ! d"

function str_nat :: "nat \<Rightarrow> string" where
  "str_nat n = (if n < 10 then [digit_char n] else str_nat (n div 10) @ [digit_char (n mod 10)])"
  by pat_completeness auto
termination
  by (relation "measure id") auto

declare str_nat.simps [simp del]

text \<open>\<open>str(i)\<close>, as the f-string of line 71 formats the integer.\<close>

definition str_int :: "int \<Rightarrow> string" where
  "str_int i = (if i < 0 then CHR ''-'' # str_nat (nat (- i)) else str_nat (nat i))"

text \<open>\<open>d[k]\<close> on a dict; \<open>str(KeyError(k))\<close> is the key in single quotes.\<close>

definition dict_get :: "(string \<times> 'v) list \<Rightarrow> string \<Rightarrow> py_exception + 'v" where
  "dict_get d k =
     (case map_of d k of
        None \<Rightarrow> Inl (PyException ''KeyError'' ([CHR 0x27] @ k @ [CHR 0x27]))
      | Some v \<Rightarrow> Inr v)"

text \<open>Truthiness of a value that is \<open>None\<close> or a \<open>bytes\<close> object.\<close>

definition truthy :: "bytes option \<Rightarrow> bool" where
  "truthy v = (case v of None \<Rightarrow> False | Some b \<Rightarrow> b \<noteq> [])"

subsection \<open>Credentials and clients (lines 16 to 42)\<close>


definition BUCKET_NAME :: string where
  "BUCKET_NAME = ''bucket-for-translator-462605''"



subsection \<open>The storage stager (lines 45 to 49)\<close>

definition upload_to_gcs :: "env \<Rightarrow> bytes \<Rightarrow> string \<Rightarrow> string io" where
  "upload_to_gcs env content destination_blob_name =
     io_bind (call (UploadFromString BUCKET_NAME destination_blob_name content ''audio/wav'')
                None
                (upload_from_string env BUCKET_NAME destination_blob_name content
                   ''audio/wav''))
       (\<lambda>_. io_return (''gs://'' @ BUCKET_NAME @ ''/'' @ destination_blob_name))"

subsection \<open>The request (lines 51 to 94)\<close>

text \<open>Lines 54 to 59: decode, force one channel and 16000 Hz, export as WAV.\<close>

definition normalize :: "env \<Rightarrow> bytes \<Rightarrow> (audio_segment \<times> bytes) io" where
  "normalize env audio_bytes =
     io_bind (emit (StWrite ''1. Processing audio...'')) (\<lambda>_.
     io_bind (lib (from_file env audio_bytes)) (\<lambda>decoded.
     io_bind (lib (set_channels env 1 decoded)) (\<lambda>mono.
     io_bind (lib (set_frame_rate env 16000 mono)) (\<lambda>audio_segment.
     io_bind (lib (export env audio_segment ''wav'')) (\<lambda>processed_audio_content.
     io_return (audio_segment, processed_audio_content))))))"

text \<open>Line 61.\<close>

definition duration_seconds :: "audio_segment \<Rightarrow> rat" where
  "duration_seconds audio_segment = of_nat (seg_len audio_segment) / 1000"

text \<open>The blob name of line 71, from the value of \<open>time.time()\<close>.\<close>

definition temp_blob_name :: "rat \<Rightarrow> string" where
  "temp_blob_name now = ''audio-uploads/temp-'' @ str_int (py_int now) @ ''.wav''"

definition short_config :: "string \<Rightarrow> recognition_config" where
  "short_config source_lang_code =
     \<lparr>encoding = LINEAR16, sample_rate_hertz = 16000, language_code = source_lang_code,
      enable_automatic_punctuation = False\<rparr>"

definition long_config :: "string \<Rightarrow> recognition_config" where
  "long_config source_lang_code =
     \<lparr>encoding = LINEAR16, sample_rate_hertz = 16000, language_code = source_lang_code,
      enable_automatic_punctuation = True\<rparr>"

text \<open>Lines 61 to 75: the two transcription branches.\<close>

definition transcribe :: "env \<Rightarrow> audio_segment \<Rightarrow> bytes \<Rightarrow> string \<Rightarrow> recognize_response io" where
  "transcribe env audio_segment processed_audio_content source_lang_code =
     io_bind (emit (StInfo (''Audio duration: '' @ format_2f env (duration_seconds audio_segment)
                             @ '' seconds.''))) (\<lambda>_.
     io_bind (emit (StWrite ''2. Transcribing audio...'')) (\<lambda>_.
     if duration_seconds audio_segment < 60 then
       call (Recognize (short_config source_lang_code) (Content processed_audio_content)) None
         (recognize env (short_config source_lang_code) (Content processed_audio_content))
     else
       io_bind (emit (StInfo ''Long audio detected. Uploading to Cloud Storage...'')) (\<lambda>_.
       io_bind (upload_to_gcs env processed_audio_content (temp_blob_name (time_time env)))
         (\<lambda>gcs_uri.
       io_bind (call (LongRunningRecognize (long_config source_lang_code) (Uri gcs_uri)) None
                  (long_running_recognize env (long_config source_lang_code) (Uri gcs_uri)))
         (\<lambda>operation.
       call (OperationResult operation) (Some 900)
         (operation_result env operation (Some 900)))))))"

text \<open>
  Line 77: \<open>"".join(result.alternatives[0].transcript for result in response.results)\<close>.
  Indexing an empty \<open>alternatives\<close> raises IndexError, with the container's text.
\<close>

fun join_transcripts :: "string \<Rightarrow> speech_result list \<Rightarrow> py_exception + string" where
  "join_transcripts ierr [] = Inr []"
| "join_transcripts ierr (r # rs) =
     (case alternatives r of
        [] \<Rightarrow> Inl (PyException ''IndexError'' ierr)
      | a # _ \<Rightarrow>
         (case join_transcripts ierr rs of
            Inl e \<Rightarrow> Inl e
          | Inr s \<Rightarrow> Inr (transcript a @ s)))"

type_synonym request_result = "string option \<times> string option \<times> bytes option"

text \<open>Lines 83 to 91.\<close>

definition translate_and_synthesize :: "env \<Rightarrow> string \<Rightarrow> request_result io" where
  "translate_and_synthesize env transcript' =
     io_bind (emit (StWrite ''3. Translating and synthesizing speech...'')) (\<lambda>_.
     io_bind (call (Translate transcript' ''ta'' None) None (translate env transcript' ''ta'' None))
       (\<lambda>translation_result.
     io_bind (lib (dict_get translation_result ''translatedText'')) (\<lambda>translated_text.
     io_bind (call (SynthesizeSpeech \<lparr>input_text = translated_text\<rparr>
                      \<lparr>voice_language_code = ''ta-IN'', ssml_gender = NEUTRAL\<rparr>
                      \<lparr>audio_encoding = MP3\<rparr>) None
                (synthesize_speech env \<lparr>input_text = translated_text\<rparr>
                   \<lparr>voice_language_code = ''ta-IN'', ssml_gender = NEUTRAL\<rparr>
                   \<lparr>audio_encoding = MP3\<rparr>)) (\<lambda>tts_response.
     io_return (Some transcript', Some translated_text, Some (audio_content tts_response))))))"

text \<open>Lines 77 to 91: the transcript, the empty-transcript exit, the downstream calls.\<close>

definition finish_request :: "env \<Rightarrow> recognize_response \<Rightarrow> request_result io" where
  "finish_request env response =
     io_bind (lib (join_transcripts (index_error_text env) (results response))) (\<lambda>transcript'.
     if transcript' = [] then
       io_bind (emit (StWarning ''Could not recognize speech. Please try again.''))
         (\<lambda>_. io_return (None, None, None))
     else translate_and_synthesize env transcript')"

text \<open>The body of the \<open>try\<close> of lines 53 to 91.\<close>

definition process_body :: "env \<Rightarrow> bytes \<Rightarrow> string \<Rightarrow> request_result io" where
  "process_body env audio_bytes source_lang_code =
     io_bind (normalize env audio_bytes) (\<lambda>(audio_segment, processed_audio_content).
     io_bind (transcribe env audio_segment processed_audio_content source_lang_code)
       (finish_request env))"

definition process_and_translate :: "env \<Rightarrow> bytes \<Rightarrow> string \<Rightarrow> request_result io" where
  "process_and_translate env audio_bytes source_lang_code =
     try_except (process_body env audio_bytes source_lang_code)
       (\<lambda>e. io_bind (emit (StError (''An error occurred during processing: '' @ exc_str e)))
               (\<lambda>_. io_return (None, None, None)))"

subsection \<open>The page (lines 97 to 121) and the whole script\<close>




text \<open>Lines 115 to 121.\<close>

definition show_results :: "request_result \<Rightarrow> unit io" where
  "show_results r =
     (case r of (original_text, translated_text, translated_audio) \<Rightarrow>
        if truthy translated_audio then
          io_bind (emit (StSuccess ''Translation Complete!'')) (\<lambda>_.
          io_bind (emit (StTextArea ''Recognized Text'' original_text 100)) (\<lambda>_.
          io_bind (emit (StTextArea ''Translated Text (Tamil)'' translated_text 100)) (\<lambda>_.
          io_bind (emit (StSubheader ''Translated Audio (Tamil)'')) (\<lambda>_.
          io_bind (emit (StAudio (case translated_audio of Some b \<Rightarrow> b | None \<Rightarrow> [])
                           ''audio/mp3'')) (\<lambda>_.
          emit StBalloons)))))
        else io_return ())"




subsection \<open>Observing a run\<close>





fun is_downstream_call :: "event \<Rightarrow> bool" where
  "is_downstream_call (Call (Translate v tgt src) t) = True"
| "is_downstream_call (Call (SynthesizeSpeech i v a) t) = True"
| "is_downstream_call e = False"


text \<open>The widgets of lines 116 to 121, which present a result.\<close>

fun is_result_widget :: "event \<Rightarrow> bool" where
  "is_result_widget (StSuccess s) = True"
| "is_result_widget (StTextArea label v h) = True"
| "is_result_widget (StSubheader s) = True"
| "is_result_widget (StAudio b fmt) = (fmt = ''audio/mp3'')"
| "is_result_widget StBalloons = True"
| "is_result_widget e = False"

text \<open>The bytes handed to the speech service: inline, or written to the bucket.\<close>

fun audio_sent :: "event list \<Rightarrow> bytes list" where
  "audio_sent [] = []"
| "audio_sent (Call (Recognize cfg (Content b)) t # es) = b # audio_sent es"
| "audio_sent (Call (UploadFromString bucket blob b ctype) t # es) = b # audio_sent es"
| "audio_sent (e # es) = audio_sent es"

definition raised :: "py_exception + 'a \<Rightarrow> py_exception option" where
  "raised r = (case r of Inl e \<Rightarrow> Some e | Inr v \<Rightarrow> None)"

text \<open>The exception, if any, with which the collaborators answer a call.\<close>

fun fault_of :: "env \<Rightarrow> call \<Rightarrow> nat option \<Rightarrow> py_exception option" where
  "fault_of env (SecretsContains k) t = raised (secrets_contains env k)"
| "fault_of env (SecretsGet k) t = raised (secrets_get env k)"
| "fault_of env (FromServiceAccountInfo j) t = raised (from_service_account_info env j)"
| "fault_of env (PathExists p) t = None"
| "fault_of env (FromServiceAccountFile p scopes) t = raised (from_service_account_file env p scopes)"
| "fault_of env (NewClient k c) t = raised (new_client env k c)"
| "fault_of env (Recognize cfg a) t = raised (recognize env cfg a)"
| "fault_of env (LongRunningRecognize cfg a) t = raised (long_running_recognize env cfg a)"
| "fault_of env (OperationResult opn) t = raised (operation_result env opn t)"
| "fault_of env (UploadFromString bucket blob content ctype) t =
     raised (upload_from_string env bucket blob content ctype)"
| "fault_of env (Translate v tgt src) t = raised (translate env v tgt src)"
| "fault_of env (SynthesizeSpeech i v a) t = raised (synthesize_speech env i v a)"

text \<open>
  What the claims about the normalizer take from pydub: \<open>set_channels(n)\<close> gives a segment
  of \<open>n\<close> channels, \<open>set_frame_rate(r)\<close> a segment of frame rate \<open>r\<close> with the channels
  unchanged.
\<close>

definition pydub_contract :: "env \<Rightarrow> bool" where
  "pydub_contract env \<longleftrightarrow>
     (\<forall>n s s'. set_channels env n s = Inr s' \<longrightarrow> channels s' = n) \<and>
     (\<forall>r s s'. set_frame_rate env r s = Inr s' \<longrightarrow> frame_rate s' = r \<and> channels s' = channels s)"

subsection \<open>Sample collaborators\<close>

text \<open>
  A stereo 44.1 kHz upload of \<open>ms\<close> milliseconds in which the speech service hears the
  segments \<open>heard\<close>; the clock shows half a second past 1700000000; only the local key
  file holds credentials.
\<close>

definition sample_response :: "string list \<Rightarrow> recognize_response" where
  "sample_response heard = \<lparr>results = map (\<lambda>w. \<lparr>alternatives = [\<lparr>transcript = w\<rparr>]\<rparr>) heard\<rparr>"

definition sample_env :: "nat \<Rightarrow> string list \<Rightarrow> env" where
  "sample_env ms heard =
     \<lparr>secrets_contains = (\<lambda>k. Inr False),
      secrets_get = (\<lambda>k. Inl (PyException ''KeyError'' k)),
      from_service_account_info = (\<lambda>j. Inr 1),
      path_exists = (\<lambda>p. p = ''gcp-key.json''),
      from_service_account_file = (\<lambda>p scopes. Inr 2),
      new_client = (\<lambda>k c. Inr ()),
      from_file = (\<lambda>b. Inr \<lparr>channels = 2, frame_rate = 44100, sample_width = 2, seg_len = ms,
                              raw_data = b\<rparr>),
      set_channels = (\<lambda>n s. Inr (s\<lparr>channels := n\<rparr>)),
      set_frame_rate = (\<lambda>r s. Inr (s\<lparr>frame_rate := r\<rparr>)),
      export = (\<lambda>s fmt. Inr (0x52 # 0x49 # 0x46 # 0x46 # raw_data s)),
      format_2f = (\<lambda>x. ''n.nn''),
      time_time = 3400000001 / 2,
      upload_from_string = (\<lambda>bucket blob content ctype. Inr ()),
      recognize = (\<lambda>cfg a. Inr (sample_response heard)),
      long_running_recognize = (\<lambda>cfg a. Inr 7),
      operation_result = (\<lambda>opn t. Inr (sample_response heard)),
      index_error_text = ''list index out of range'',
      translate = (\<lambda>v tgt src. Inr [(''translatedText'', ''vanakkam''), (''input'', v)]),
      synthesize_speech = (\<lambda>i v a. Inr \<lparr>audio_content = [0x49, 0x44, 0x33]\<rparr>)\<rparr>"

definition unavailable :: py_exception where
  "unavailable = PyException ''ServiceUnavailable'' ''503 backend down''"

text \<open>The same, with the translation service down.\<close>

definition translate_down :: "nat \<Rightarrow> env" where
  "translate_down ms = (sample_env ms [''hello''])\<lparr>translate := (\<lambda>v tgt src. Inl unavailable)\<rparr>"


text \<open>The ninety-second upload, with the clock at \<open>now\<close>.\<close>

definition sample_env_at :: "rat \<Rightarrow> env" where
  "sample_env_at now = (sample_env 90000 [''namaste''])\<lparr>time_time := now\<rparr>"


section \<open>Running the stages\<close>

subsection \<open>Sequencing\<close>

lemma io_bind_emit: "io_bind (emit e) f = (e # fst (f ()), snd (f ()))"
  by (simp add: emit_def split: prod.split)

lemma io_bind_return: "io_bind (io_return x) f = f x"
  by (simp add: io_return_def split: prod.split)

lemma io_bind_lib: "io_bind (lib r) f = (case r of Inl e \<Rightarrow> ([], Raised e) | Inr v \<Rightarrow> f v)"
  by (simp add: lib_def split: sum.split prod.split)

lemma io_bind_call:
  "io_bind (call c t r) f =
     (case r of Inl e \<Rightarrow> ([Call c t], Raised e) | Inr v \<Rightarrow> (Call c t # fst (f v), snd (f v)))"
  by (simp add: call_def split: sum.split prod.split)

lemma events_io_bind:
  "events (io_bind p f) = events p @ (case outcome p of Returned x \<Rightarrow> events (f x) | _ \<Rightarrow> [])"
  by (cases p; cases "snd p") (auto simp: events_def outcome_def split: prod.split)

lemma outcome_io_bind:
  "outcome (io_bind p f) =
     (case outcome p of Returned x \<Rightarrow> outcome (f x) | Raised e \<Rightarrow> Raised e | Stopped \<Rightarrow> Stopped)"
  by (cases p; cases "snd p") (auto simp: events_def outcome_def split: prod.split)

lemma io_eq: "p = (events p, outcome p)"
  by (simp add: events_def outcome_def)

lemma str_nat_small: "n < 10 \<Longrightarrow> str_nat n = [digit_char n]"
  by (subst str_nat.simps) simp

lemma str_nat_big: "\<not> n < 10 \<Longrightarrow> str_nat n = str_nat (n div 10) @ [digit_char (n mod 10)]"
  by (subst str_nat.simps) simp

lemma py_int_sample: "py_int (3400000001 / 2) = 1700000000"
  by (simp add: py_int_def floor_eq_iff)

lemma temp_blob_name_sample: "temp_blob_name (3400000001 / 2) = ''audio-uploads/temp-1700000000.wav''"
  by (simp add: temp_blob_name_def py_int_sample str_int_def str_nat_small str_nat_big digit_char_def)

lemma normalize_eq:
  "normalize env b =
     ([StWrite ''1. Processing audio...''],
      case from_file env b of Inl e \<Rightarrow> Raised e | Inr d \<Rightarrow>
      (case set_channels env 1 d of Inl e \<Rightarrow> Raised e | Inr m \<Rightarrow>
      (case set_frame_rate env 16000 m of Inl e \<Rightarrow> Raised e | Inr s \<Rightarrow>
      (case export env s ''wav'' of Inl e \<Rightarrow> Raised e | Inr c \<Rightarrow> Returned (s, c)))))"
  by (simp add: normalize_def io_bind_emit io_bind_lib io_return_def split: sum.split)

lemma transcribe_short:
  "duration_seconds seg < 60 \<Longrightarrow>
   transcribe env seg c l =
     ([StInfo (''Audio duration: '' @ format_2f env (duration_seconds seg) @ '' seconds.''),
       StWrite ''2. Transcribing audio...'',
       Call (Recognize (short_config l) (Content c)) None],
      case recognize env (short_config l) (Content c) of Inl e \<Rightarrow> Raised e | Inr v \<Rightarrow> Returned v)"
  by (simp add: transcribe_def io_bind_emit call_def)

lemma upload_to_gcs_eq:
  "upload_to_gcs env content blob =
     ([Call (UploadFromString BUCKET_NAME blob content ''audio/wav'') None],
      case upload_from_string env BUCKET_NAME blob content ''audio/wav'' of
        Inl e \<Rightarrow> Raised e
      | Inr u \<Rightarrow> Returned (''gs://'' @ BUCKET_NAME @ ''/'' @ blob))"
  by (simp add: upload_to_gcs_def io_bind_call io_return_def split: sum.split)

lemma transcribe_long:
  "\<not> duration_seconds seg < 60 \<Longrightarrow>
   transcribe env seg c l =
     (let blob = temp_blob_name (time_time env);
          uri = ''gs://'' @ BUCKET_NAME @ ''/'' @ blob;
          up = Call (UploadFromString BUCKET_NAME blob c ''audio/wav'') None;
          lrr = Call (LongRunningRecognize (long_config l) (Uri uri)) None;
          pre = [StInfo (''Audio duration: '' @ format_2f env (duration_seconds seg) @ '' seconds.''),
                 StWrite ''2. Transcribing audio...'',
                 StInfo ''Long audio detected. Uploading to Cloud Storage...'', up]
      in case upload_from_string env BUCKET_NAME blob c ''audio/wav'' of
           Inl e \<Rightarrow> (pre, Raised e)
         | Inr u \<Rightarrow>
            (case long_running_recognize env (long_config l) (Uri uri) of
               Inl e \<Rightarrow> (pre @ [lrr], Raised e)
             | Inr opn \<Rightarrow>
                (pre @ [lrr, Call (OperationResult opn) (Some 900)],
                 case operation_result env opn (Some 900) of
                   Inl e \<Rightarrow> Raised e | Inr v \<Rightarrow> Returned v)))"
  by (simp add: transcribe_def io_bind_emit upload_to_gcs_eq io_bind_call call_def Let_def
      split: sum.split)

lemma translate_and_synthesize_eq:
  "translate_and_synthesize env t =
     (let tr = Call (Translate t ''ta'' None) None;
          w = StWrite ''3. Translating and synthesizing speech...''
      in case translate env t ''ta'' None of
           Inl e \<Rightarrow> ([w, tr], Raised e)
         | Inr d \<Rightarrow>
            (case dict_get d ''translatedText'' of
               Inl e \<Rightarrow> ([w, tr], Raised e)
             | Inr txt \<Rightarrow>
                ([w, tr, Call (SynthesizeSpeech \<lparr>input_text = txt\<rparr>
                                 \<lparr>voice_language_code = ''ta-IN'', ssml_gender = NEUTRAL\<rparr>
                                 \<lparr>audio_encoding = MP3\<rparr>) None],
                 case synthesize_speech env \<lparr>input_text = txt\<rparr>
                        \<lparr>voice_language_code = ''ta-IN'', ssml_gender = NEUTRAL\<rparr>
                        \<lparr>audio_encoding = MP3\<rparr> of
                   Inl e \<Rightarrow> Raised e
                 | Inr r \<Rightarrow> Returned (Some t, Some txt, Some (audio_content r)))))"
  by (simp add: translate_and_synthesize_def io_bind_emit io_bind_call io_bind_lib call_def
      io_return_def Let_def split: sum.split)

lemma events_pair: "events (es, r) = es"
  by (simp add: events_def)

lemma outcome_pair: "outcome (es, r) = r"
  by (simp add: outcome_def)

lemma events_try_except:
  "events (try_except p h) = events p @ (case outcome p of Raised e \<Rightarrow> events (h e) | _ \<Rightarrow> [])"
  by (cases p; cases "snd p") (auto simp: events_def outcome_def split: prod.split)

lemma outcome_try_except:
  "outcome (try_except p h) = (case outcome p of Raised e \<Rightarrow> outcome (h e) | r \<Rightarrow> r)"
  by (cases p; cases "snd p") (auto simp: events_def outcome_def split: prod.split)

lemma finish_request_eq:
  "finish_request env resp =
     (case join_transcripts (index_error_text env) (results resp) of
        Inl e \<Rightarrow> ([], Raised e)
      | Inr t \<Rightarrow>
          if t = [] then ([StWarning ''Could not recognize speech. Please try again.''],
                          Returned (None, None, None))
          else translate_and_synthesize env t)"
  by (simp add: finish_request_def io_bind_lib io_bind_emit io_return_def split: sum.split)

lemma events_normalize: "events (normalize env b) = [StWrite ''1. Processing audio...'']"
  by (simp add: normalize_eq events_def)

lemma events_process_body:
  "events (process_body env b l) =
     StWrite ''1. Processing audio...'' #
     (case outcome (normalize env b) of
        Returned (seg, c) \<Rightarrow>
          events (transcribe env seg c l) @
          (case outcome (transcribe env seg c l) of
             Returned resp \<Rightarrow> events (finish_request env resp)
           | _ \<Rightarrow> [])
      | _ \<Rightarrow> [])"
  by (simp add: process_body_def events_io_bind events_normalize
      split: outcome.split prod.split)

lemma outcome_process_body:
  "outcome (process_body env b l) =
     (case outcome (normalize env b) of
        Returned (seg, c) \<Rightarrow>
          (case outcome (transcribe env seg c l) of
             Returned resp \<Rightarrow> outcome (finish_request env resp)
           | Raised e \<Rightarrow> Raised e
           | Stopped \<Rightarrow> Stopped)
      | Raised e \<Rightarrow> Raised e
      | Stopped \<Rightarrow> Stopped)"
  by (simp add: process_body_def outcome_io_bind split: outcome.split prod.split)

lemma events_process_and_translate:
  "events (process_and_translate env b l) =
     events (process_body env b l) @
     (case outcome (process_body env b l) of
        Raised e \<Rightarrow> [StError (''An error occurred during processing: '' @ exc_str e)]
      | _ \<Rightarrow> [])"
  by (simp add: process_and_translate_def events_try_except io_bind_emit io_return_def events_pair
      split: outcome.split)

lemma outcome_process_and_translate:
  "outcome (process_and_translate env b l) =
     (case outcome (process_body env b l) of
        Raised e \<Rightarrow> Returned (None, None, None)
      | r \<Rightarrow> r)"
  by (simp add: process_and_translate_def outcome_try_except io_bind_emit io_return_def outcome_pair
      split: outcome.split)

lemma transcribe_not_Stopped: "outcome (transcribe env seg c l) \<noteq> Stopped"
  by (cases "duration_seconds seg < 60")
     (auto simp: transcribe_short transcribe_long outcome_def Let_def split: sum.splits)

lemma normalize_not_Stopped: "outcome (normalize env b) \<noteq> Stopped"
  by (auto simp: normalize_eq outcome_def split: sum.splits)

lemma finish_request_not_Stopped: "outcome (finish_request env resp) \<noteq> Stopped"
  by (auto simp: finish_request_eq translate_and_synthesize_eq outcome_def Let_def split: sum.splits)

lemma process_body_not_Stopped: "outcome (process_body env b l) \<noteq> Stopped"
  using normalize_not_Stopped [of env b] transcribe_not_Stopped [of env _ _ l]
    finish_request_not_Stopped [of env]
  by (auto simp: outcome_process_body split: outcome.splits prod.splits)

subsection \<open>Which calls a request makes\<close>

lemma transcribe_calls:
  assumes "Call c t \<in> set (events (transcribe env seg c0 l))"
  shows "(duration_seconds seg < 60 \<and> c = Recognize (short_config l) (Content c0) \<and> t = None) \<or>
         (\<not> duration_seconds seg < 60 \<and>
           (c = UploadFromString BUCKET_NAME (temp_blob_name (time_time env)) c0 ''audio/wav''
              \<and> t = None
            \<or> c = LongRunningRecognize (long_config l)
                   (Uri (''gs://'' @ BUCKET_NAME @ ''/'' @ temp_blob_name (time_time env)))
              \<and> t = None
            \<or> (\<exists>opn. c = OperationResult opn \<and> t = Some 900)))"
proof (cases "duration_seconds seg < 60")
  case True
  with assms show ?thesis by (simp add: transcribe_short events_pair)
next
  case False
  with assms show ?thesis
    by (auto simp: transcribe_long events_pair Let_def split: sum.splits)
qed

lemma finish_request_calls:
  assumes "Call c t \<in> set (events (finish_request env resp))"
  shows "\<exists>tr. join_transcripts (index_error_text env) (results resp) = Inr tr \<and> tr \<noteq> [] \<and>
           t = None \<and>
           (c = Translate tr ''ta'' None \<or>
            (\<exists>txt. c = SynthesizeSpeech \<lparr>input_text = txt\<rparr>
                         \<lparr>voice_language_code = ''ta-IN'', ssml_gender = NEUTRAL\<rparr>
                         \<lparr>audio_encoding = MP3\<rparr>))"
  using assms
  by (auto simp: finish_request_eq translate_and_synthesize_eq events_pair Let_def
      split: sum.splits if_splits)

lemma process_calls:
  assumes "Call c t \<in> set (events (process_and_translate env b l))"
  shows "\<exists>seg c0. outcome (normalize env b) = Returned (seg, c0) \<and>
           (Call c t \<in> set (events (transcribe env seg c0 l)) \<or>
            (\<exists>resp. outcome (transcribe env seg c0 l) = Returned resp \<and>
               Call c t \<in> set (events (finish_request env resp))))"
proof -
  from assms have body: "Call c t \<in> set (events (process_body env b l))"
    by (auto simp: events_process_and_translate split: outcome.splits)
  show ?thesis
  proof (cases "outcome (normalize env b)")
    case (Returned p)
    obtain seg c0 where p: "p = (seg, c0)" by (cases p)
    show ?thesis
    proof (cases "outcome (transcribe env seg c0 l)")
      case (Returned resp)
      with body \<open>outcome (normalize env b) = Returned p\<close> p show ?thesis
        by (auto simp: events_process_body)
    qed (use body \<open>outcome (normalize env b) = Returned p\<close> p in \<open>auto simp: events_process_body\<close>)
  qed (use body in \<open>auto simp: events_process_body\<close>)
qed







subsection \<open>The sample runs\<close>

lemmas run_defs = process_and_translate_def process_body_def normalize_def transcribe_def
  finish_request_def translate_and_synthesize_def upload_to_gcs_def
  io_bind_emit io_bind_lib io_bind_call io_bind_return io_return_def emit_def lib_def call_def
  sample_env_def sample_response_def duration_seconds_def dict_get_def events_def outcome_def

lemma sample_normalize:
  "outcome (normalize (sample_env ms heard) b) =
     Returned (\<lparr>channels = 1, frame_rate = 16000, sample_width = 2, seg_len = ms, raw_data = b\<rparr>,
               0x52 # 0x49 # 0x46 # 0x46 # b)"
  by (simp add: normalize_eq outcome_pair sample_env_def)

lemma sample_short_run:
  "process_and_translate (sample_env 10000 [''hello '', ''world'']) [1, 2] ''en-US'' =
     ([StWrite ''1. Processing audio...'',
       StInfo ''Audio duration: n.nn seconds.'',
       StWrite ''2. Transcribing audio...'',
       Call (Recognize (short_config ''en-US'') (Content [0x52, 0x49, 0x46, 0x46, 1, 2])) None,
       StWrite ''3. Translating and synthesizing speech...'',
       Call (Translate ''hello world'' ''ta'' None) None,
       Call (SynthesizeSpeech \<lparr>input_text = ''vanakkam''\<rparr>
               \<lparr>voice_language_code = ''ta-IN'', ssml_gender = NEUTRAL\<rparr>
               \<lparr>audio_encoding = MP3\<rparr>) None],
      Returned (Some ''hello world'', Some ''vanakkam'', Some [0x49, 0x44, 0x33]))"
  by (simp add: run_defs)

lemma sample_long_run:
  "process_and_translate (sample_env 90000 [''namaste'']) [3] ''hi-IN'' =
     ([StWrite ''1. Processing audio...'',
       StInfo ''Audio duration: n.nn seconds.'',
       StWrite ''2. Transcribing audio...'',
       StInfo ''Long audio detected. Uploading to Cloud Storage...'',
       Call (UploadFromString ''bucket-for-translator-462605''
               ''audio-uploads/temp-1700000000.wav'' [0x52, 0x49, 0x46, 0x46, 3] ''audio/wav'') None,
       Call (LongRunningRecognize (long_config ''hi-IN'')
               (Uri ''gs://bucket-for-translator-462605/audio-uploads/temp-1700000000.wav'')) None,
       Call (OperationResult 7) (Some 900),
       StWrite ''3. Translating and synthesizing speech...'',
       Call (Translate ''namaste'' ''ta'' None) None,
       Call (SynthesizeSpeech \<lparr>input_text = ''vanakkam''\<rparr>
               \<lparr>voice_language_code = ''ta-IN'', ssml_gender = NEUTRAL\<rparr>
               \<lparr>audio_encoding = MP3\<rparr>) None],
      Returned (Some ''namaste'', Some ''vanakkam'', Some [0x49, 0x44, 0x33]))"
  by (simp add: run_defs temp_blob_name_sample BUCKET_NAME_def)

subsection \<open>Polling and failing\<close>


lemma process_raised:
  assumes "outcome (process_body env b l) = Raised e"
  shows "process_and_translate env b l =
           (events (process_body env b l) @
              [StError (''An error occurred during processing: '' @ exc_str e)],
            Returned (None, None, None))"
  using assms io_eq [of "process_and_translate env b l"]
  by (simp add: events_process_and_translate outcome_process_and_translate)


subsection \<open>The transcript\<close>

lemma join_transcripts_Inr:
  "join_transcripts ierr rs = Inr s \<Longrightarrow>
     list_all (\<lambda>r. alternatives r \<noteq> []) rs \<and>
     s = concat (map (\<lambda>r. transcript (hd (alternatives r))) rs)"
  by (induction rs arbitrary: s) (auto split: list.splits sum.splits)

lemma join_transcripts_total:
  "list_all (\<lambda>r. alternatives r \<noteq> []) rs \<Longrightarrow>
     join_transcripts ierr rs = Inr (concat (map (\<lambda>r. transcript (hd (alternatives r))) rs))"
  by (induction rs) (auto split: list.splits sum.splits)

lemma transcribe_no_downstream_call:
  "\<not> list_ex is_downstream_call (events (transcribe env seg c l))"
  by (cases "duration_seconds seg < 60")
     (auto simp: transcribe_short transcribe_long events_pair Let_def split: sum.splits)

lemma process_returned_transcript:
  assumes "outcome (process_and_translate env b l) = Returned (Some tr, x, y)"
  shows "\<exists>seg c resp. outcome (normalize env b) = Returned (seg, c) \<and>
           outcome (transcribe env seg c l) = Returned resp \<and>
           join_transcripts (index_error_text env) (results resp) = Inr tr \<and> tr \<noteq> []"
proof -
  from assms have body: "outcome (process_body env b l) = Returned (Some tr, x, y)"
    by (auto simp: outcome_process_and_translate split: outcome.splits)
  then obtain seg c where n: "outcome (normalize env b) = Returned (seg, c)"
    by (auto simp: outcome_process_body split: outcome.splits)
  with body obtain resp where t: "outcome (transcribe env seg c l) = Returned resp"
    by (auto simp: outcome_process_body split: outcome.splits)
  with body n have "outcome (finish_request env resp) = Returned (Some tr, x, y)"
    by (simp add: outcome_process_body)
  then have "join_transcripts (index_error_text env) (results resp) = Inr tr \<and> tr \<noteq> []"
    by (auto simp: finish_request_eq translate_and_synthesize_eq outcome_pair Let_def
        split: sum.splits if_splits)
  with n t show ?thesis by blast
qed

lemma transcribe_Returned:
  assumes "outcome (transcribe env seg c l) = Returned resp"
  shows "if duration_seconds seg < 60
         then recognize env (short_config l) (Content c) = Inr resp
         else \<exists>opn. long_running_recognize env (long_config l)
                      (Uri (''gs://'' @ BUCKET_NAME @ ''/'' @ temp_blob_name (time_time env)))
                      = Inr opn \<and>
                    operation_result env opn (Some 900) = Inr resp"
proof (cases "duration_seconds seg < 60")
  case True
  with assms show ?thesis
    by (auto simp: transcribe_short outcome_pair split: sum.splits)
next
  case False
  with assms show ?thesis
    by (auto simp: transcribe_long outcome_pair Let_def split: sum.splits)
qed


subsection \<open>Faults\<close>

lemma process_events:
  assumes "x \<in> set (events (process_and_translate env b l))"
  shows "x = StWrite ''1. Processing audio...'' \<or>
         (\<exists>e. outcome (process_body env b l) = Raised e \<and>
              x = StError (''An error occurred during processing: '' @ exc_str e)) \<or>
         (\<exists>seg c0. outcome (normalize env b) = Returned (seg, c0) \<and>
           (x \<in> set (events (transcribe env seg c0 l)) \<or>
            (\<exists>resp. outcome (transcribe env seg c0 l) = Returned resp \<and>
               x \<in> set (events (finish_request env resp)))))"
proof -
  from assms have body: "x \<in> set (events (process_body env b l)) \<or>
      (\<exists>e. outcome (process_body env b l) = Raised e \<and>
              x = StError (''An error occurred during processing: '' @ exc_str e))"
    by (cases "outcome (process_body env b l)") (auto simp: events_process_and_translate)
  show ?thesis
  proof (cases "outcome (normalize env b)")
    case (Returned p)
    obtain seg c0 where p: "p = (seg, c0)" by (cases p)
    show ?thesis
    proof (cases "outcome (transcribe env seg c0 l)")
      case (Returned resp)
      with body \<open>outcome (normalize env b) = Returned p\<close> p show ?thesis
        by (auto simp: events_process_body)
    qed (use body \<open>outcome (normalize env b) = Returned p\<close> p in \<open>auto simp: events_process_body\<close>)
  qed (use body in \<open>auto simp: events_process_body\<close>)
qed

lemma transcribe_events_kind:
  "x \<in> set (events (transcribe env seg c l)) \<Longrightarrow>
     \<not> is_result_widget x \<and> \<not> is_downstream_call x"
  by (cases "duration_seconds seg < 60")
     (auto simp: transcribe_short transcribe_long events_pair Let_def split: sum.splits)

lemma finish_request_events_kind:
  "x \<in> set (events (finish_request env resp)) \<Longrightarrow> \<not> is_result_widget x"
  by (auto simp: finish_request_eq translate_and_synthesize_eq events_pair Let_def
      split: sum.splits if_splits)

lemma process_no_result_widget:
  "\<not> list_ex is_result_widget (events (process_and_translate env b l))"
  by (auto simp: list_ex_iff dest!: process_events
      dest: transcribe_events_kind finish_request_events_kind)

lemma transcribe_fault:
  assumes "Call c t \<in> set (events (transcribe env seg c0 l))" and "fault_of env c t = Some e"
  shows "outcome (transcribe env seg c0 l) = Raised e"
proof (cases "duration_seconds seg < 60")
  case True
  with assms show ?thesis
    by (auto simp: transcribe_short events_pair outcome_pair raised_def split: sum.splits)
next
  case False
  with assms show ?thesis
    by (auto simp: transcribe_long events_pair outcome_pair raised_def Let_def split: sum.splits)
qed

lemma finish_request_fault:
  assumes "Call c t \<in> set (events (finish_request env resp))" and "fault_of env c t = Some e"
  shows "outcome (finish_request env resp) = Raised e"
  using assms
  by (auto simp: finish_request_eq translate_and_synthesize_eq events_pair outcome_pair raised_def
      Let_def split: sum.splits if_splits)

lemma process_body_fault:
  assumes "Call c t \<in> set (events (process_and_translate env b l))"
    and "fault_of env c t = Some e"
  shows "outcome (process_body env b l) = Raised e"
proof -
  from process_calls [OF assms(1)] obtain seg c0
    where n: "outcome (normalize env b) = Returned (seg, c0)"
      and d: "Call c t \<in> set (events (transcribe env seg c0 l)) \<or>
            (\<exists>resp. outcome (transcribe env seg c0 l) = Returned resp \<and>
               Call c t \<in> set (events (finish_request env resp)))"
    by blast
  from d show ?thesis
  proof
    assume "Call c t \<in> set (events (transcribe env seg c0 l))"
    from transcribe_fault [OF this assms(2)] n show ?thesis
      by (simp add: outcome_process_body)
  next
    assume "\<exists>resp. outcome (transcribe env seg c0 l) = Returned resp \<and>
               Call c t \<in> set (events (finish_request env resp))"
    then obtain resp where t: "outcome (transcribe env seg c0 l) = Returned resp"
      and f: "Call c t \<in> set (events (finish_request env resp))" by blast
    from finish_request_fault [OF f assms(2)] n t show ?thesis
      by (simp add: outcome_process_body)
  qed
qed

lemma show_nothing:
  assumes "outcome p = Returned (None, None, None)"
  shows "io_bind p show_results = (events p, Returned ())"
proof -
  have "p = (events p, Returned (None, None, None))"
    using assms io_eq [of p] by simp
  then have "io_bind p show_results = io_bind (events p, Returned (None, None, None)) show_results"
    by simp
  also have "\<dots> = (events p, Returned ())"
    by (simp add: show_results_def truthy_def io_return_def)
  finally show ?thesis .
qed

lemma process_always_returns:
  "\<exists>r. outcome (process_and_translate env b l) = Returned r"
  using process_body_not_Stopped [of env b l]
  by (cases "outcome (process_body env b l)") (auto simp: outcome_process_and_translate)


lemma translate_down_run:
  "process_and_translate (translate_down 10000) [1, 2] ''en-US'' =
     ([StWrite ''1. Processing audio...'',
       StInfo ''Audio duration: n.nn seconds.'',
       StWrite ''2. Transcribing audio...'',
       Call (Recognize (short_config ''en-US'') (Content [0x52, 0x49, 0x46, 0x46, 1, 2])) None,
       StWrite ''3. Translating and synthesizing speech...'',
       Call (Translate ''hello'' ''ta'' None) None,
       StError ''An error occurred during processing: 503 backend down''],
      Returned (None, None, None))"
  by (simp add: run_defs translate_down_def unavailable_def)


subsection \<open>The empty transcript\<close>

lemma finish_request_empty:
  assumes "join_transcripts (index_error_text env) (results resp) = Inr []"
  shows "finish_request env resp =
           ([StWarning ''Could not recognize speech. Please try again.''],
            Returned (None, None, None))"
  using assms by (simp add: finish_request_eq)

lemma process_events_kind:
  assumes "x \<in> set (events (process_and_translate env b l))" and "is_downstream_call x"
  shows "\<exists>seg c0 resp. outcome (normalize env b) = Returned (seg, c0) \<and>
           outcome (transcribe env seg c0 l) = Returned resp \<and>
           x \<in> set (events (finish_request env resp))"
  using process_events [OF assms(1)] assms(2)
  by (auto dest: transcribe_events_kind)


subsection \<open>The audio that is sent\<close>

lemma audio_sent_append: "audio_sent (xs @ ys) = audio_sent xs @ audio_sent ys"
  by (induction xs rule: audio_sent.induct) simp_all

lemma audio_sent_transcribe: "audio_sent (events (transcribe env seg c l)) = [c]"
  by (cases "duration_seconds seg < 60")
     (auto simp: transcribe_short transcribe_long events_pair Let_def split: sum.splits)

lemma audio_sent_finish_request: "audio_sent (events (finish_request env resp)) = []"
  by (auto simp: finish_request_eq translate_and_synthesize_eq events_pair Let_def
      split: sum.splits)

lemma audio_sent_process_body:
  "audio_sent (events (process_body env b l)) =
     (case outcome (normalize env b) of Returned (seg, c) \<Rightarrow> [c] | _ \<Rightarrow> [])"
  by (auto simp: events_process_body audio_sent_append audio_sent_transcribe
      audio_sent_finish_request split: outcome.splits)

lemma audio_sent_process:
  "audio_sent (events (process_and_translate env b l)) =
     (case outcome (normalize env b) of Returned (seg, c) \<Rightarrow> [c] | _ \<Rightarrow> [])"
  by (cases "outcome (process_body env b l)")
     (simp_all add: events_process_and_translate audio_sent_append audio_sent_process_body)

lemma normalize_Returned:
  assumes "outcome (normalize env b) = Returned (seg, c)"
  shows "\<exists>d m. from_file env b = Inr d \<and> set_channels env 1 d = Inr m \<and>
           set_frame_rate env 16000 m = Inr seg \<and> export env seg ''wav'' = Inr c"
  using assms by (auto simp: normalize_eq outcome_pair split: sum.splits)

lemma sample_pydub_contract: "pydub_contract (sample_env ms heard)"
  by (auto simp: pydub_contract_def sample_env_def)


subsection \<open>Decimal rendering and blob names\<close>

lemma digit_cases:
  assumes "d < (10::nat)"
  obtains "d = 0" | "d = 1" | "d = 2" | "d = 3" | "d = 4" | "d = 5" | "d = 6" | "d = 7"
    | "d = 8" | "d = 9"
proof -
  from assms have "d \<in> set [0..<10]" by simp
  also have "[0..<10] = [0, 1, 2, 3, 4, 5, 6, 7, 8, 9 :: nat]" by (simp add: upt_rec)
  finally show thesis using that by auto
qed

lemma of_char_digit_char: "d < 10 \<Longrightarrow> (of_char (digit_char d) :: nat) = 48 + d"
  by (erule digit_cases) (simp_all add: digit_char_def)

lemma digit_char_inj:
  assumes "a < 10" and "b < 10" and "digit_char a = digit_char b"
  shows "a = b"
proof -
  have "48 + a = (of_char (digit_char a) :: nat)"
    by (simp only: of_char_digit_char [OF assms(1)])
  also have "\<dots> = of_char (digit_char b)"
    by (simp only: assms(3))
  also have "\<dots> = 48 + b"
    by (simp only: of_char_digit_char [OF assms(2)])
  finally show ?thesis by simp
qed

lemma digit_char_not_minus:
  assumes "d < 10"
  shows "digit_char d \<noteq> CHR ''-''"
proof
  assume "digit_char d = CHR ''-''"
  then have "(of_char (CHR ''-'') :: nat) = of_char (digit_char d)" by (simp only:)
  also have "\<dots> = 48 + d" by (simp only: of_char_digit_char [OF assms])
  finally show False by simp
qed

lemma str_nat_nonempty: "str_nat n \<noteq> []"
  by (subst str_nat.simps) simp

lemma str_nat_no_minus: "CHR ''-'' \<notin> set (str_nat n)"
proof (induction n rule: str_nat.induct)
  case (1 n)
  show ?case
  proof (cases "n < 10")
    case True
    then show ?thesis using digit_char_not_minus [of n] by (auto simp: str_nat_small)
  next
    case False
    then show ?thesis
      using 1 digit_char_not_minus [of "n mod 10"] by (auto simp: str_nat_big)
  qed
qed

lemma str_nat_inj: "str_nat n = str_nat m \<Longrightarrow> n = m"
proof (induction n arbitrary: m rule: str_nat.induct)
  case (1 n)
  show ?case
  proof (cases "n < 10")
    case True
    note n = this
    show ?thesis
    proof (cases "m < 10")
      case True
      with n "1.prems" show ?thesis by (simp add: str_nat_small digit_char_inj)
    next
      case False
      with n "1.prems" str_nat_nonempty [of "m div 10"] show ?thesis
        by (cases "str_nat (m div 10)") (simp_all add: str_nat_small str_nat_big)
    qed
  next
    case False
    note n = this
    show ?thesis
    proof (cases "m < 10")
      case True
      with n "1.prems" str_nat_nonempty [of "n div 10"] show ?thesis
        by (cases "str_nat (n div 10)") (simp_all add: str_nat_small str_nat_big)
    next
      case False
      with n "1.prems" have eq: "str_nat (n div 10) = str_nat (m div 10)"
        and d: "digit_char (n mod 10) = digit_char (m mod 10)"
        by (simp_all add: str_nat_big)
      from "1.IH" [OF n eq] have "n div 10 = m div 10" .
      moreover from d have "n mod 10 = m mod 10" by (simp add: digit_char_inj)
      ultimately show ?thesis by (metis div_mult_mod_eq)
    qed
  qed
qed

lemma str_int_inj: "str_int i = str_int j \<Longrightarrow> i = j"
proof -
  assume eq: "str_int i = str_int j"
  show ?thesis
  proof (cases "i < 0"; cases "j < 0")
    assume "i < 0" "j < 0"
    with eq have "nat (- i) = nat (- j)" by (simp add: str_int_def str_nat_inj)
    with \<open>i < 0\<close> \<open>j < 0\<close> show ?thesis by simp
  next
    assume "i < 0" "\<not> j < 0"
    with eq have "str_nat (nat j) = CHR ''-'' # str_nat (nat (- i))"
      by (simp add: str_int_def)
    then have "CHR ''-'' \<in> set (str_nat (nat j))"
      by simp
    then show ?thesis by (simp add: str_nat_no_minus)
  next
    assume "\<not> i < 0" "j < 0"
    with eq have "str_nat (nat i) = CHR ''-'' # str_nat (nat (- j))"
      by (simp add: str_int_def)
    then have "CHR ''-'' \<in> set (str_nat (nat i))"
      by simp
    then show ?thesis by (simp add: str_nat_no_minus)
  next
    assume "\<not> i < 0" "\<not> j < 0"
    with eq have "nat i = nat j" by (simp add: str_int_def str_nat_inj)
    with \<open>\<not> i < 0\<close> \<open>\<not> j < 0\<close> show ?thesis by simp
  qed
qed

lemma temp_blob_name_eq_iff: "temp_blob_name t1 = temp_blob_name t2 \<longleftrightarrow> py_int t1 = py_int t2"
  by (auto simp: temp_blob_name_def dest: str_int_inj)

lemma py_int_quarter: "py_int (6800000001 / 4) = 1700000000"
  by (simp add: py_int_def floor_eq_iff)

lemma py_int_three_quarters: "py_int (6800000003 / 4) = 1700000000"
  by (simp add: py_int_def floor_eq_iff)

lemma str_int_sample: "str_int 1700000000 = ''1700000000''"
  by (simp add: str_int_def str_nat_small str_nat_big digit_char_def)


lemma sample_upload_quarter:
  "Call (UploadFromString ''bucket-for-translator-462605'' ''audio-uploads/temp-1700000000.wav''
           [0x52, 0x49, 0x46, 0x46, 3] ''audio/wav'') None
     \<in> set (events (process_and_translate (sample_env_at (6800000001 / 4)) [3] ''hi-IN''))"
  by (simp add: run_defs sample_env_at_def temp_blob_name_def py_int_quarter str_int_sample
      BUCKET_NAME_def)

lemma sample_upload_three_quarters:
  "Call (UploadFromString ''bucket-for-translator-462605'' ''audio-uploads/temp-1700000000.wav''
           [0x52, 0x49, 0x46, 0x46, 4] ''audio/wav'') None
     \<in> set (events (process_and_translate (sample_env_at (6800000003 / 4)) [4] ''hi-IN''))"
  by (simp add: run_defs sample_env_at_def temp_blob_name_def py_int_three_quarters str_int_sample
      BUCKET_NAME_def)

subsection \<open>Start-up\<close>








section \<open>The claims\<close>



text \<open>
  C10. The two branches configure recognition differently: every inline \<open>recognize\<close> call
  of a request carries the configuration without automatic punctuation, every
  \<open>long_running_recognize\<close> call the one with \<open>enable_automatic_punctuation=True\<close>; apart
  from that field (and from inline content against a storage URI) the two agree.
\<close>

theorem branches_differ_in_punctuation:
  "(\<forall>cfg a t. Call (Recognize cfg a) t
        \<in> set (events (process_and_translate env audio_bytes source_lang_code)) \<longrightarrow>
      cfg = short_config source_lang_code \<and> \<not> enable_automatic_punctuation cfg \<and>
      (\<exists>content. a = Content content)) \<and>
   (\<forall>cfg a t. Call (LongRunningRecognize cfg a) t
        \<in> set (events (process_and_translate env audio_bytes source_lang_code)) \<longrightarrow>
      cfg = long_config source_lang_code \<and> enable_automatic_punctuation cfg \<and>
      (\<exists>uri. a = Uri uri)) \<and>
   long_config source_lang_code =
     (short_config source_lang_code)\<lparr>enable_automatic_punctuation := True\<rparr> \<and>
   short_config source_lang_code \<noteq> long_config source_lang_code"
proof -
  have "cfg = short_config source_lang_code \<and> \<not> enable_automatic_punctuation cfg \<and>
        (\<exists>content. a = Content content)"
    if "Call (Recognize cfg a) t \<in> set (events (process_and_translate env audio_bytes source_lang_code))"
    for cfg a t
    using process_calls [OF that]
    by (auto dest!: transcribe_calls finish_request_calls simp: short_config_def)
  moreover have "cfg = long_config source_lang_code \<and> enable_automatic_punctuation cfg \<and>
        (\<exists>uri. a = Uri uri)"
    if "Call (LongRunningRecognize cfg a) t
          \<in> set (events (process_and_translate env audio_bytes source_lang_code))"
    for cfg a t
    using process_calls [OF that]
    by (auto dest!: transcribe_calls finish_request_calls simp: long_config_def)
  moreover have "long_config source_lang_code =
      (short_config source_lang_code)\<lparr>enable_automatic_punctuation := True\<rparr>"
    by (simp add: long_config_def short_config_def)
  moreover have "short_config source_lang_code \<noteq> long_config source_lang_code"
    by (simp add: long_config_def short_config_def)
  ultimately show ?thesis by blast
qed

theorem branches_differ_in_punctuation_witness:
  "Call (Recognize (short_config ''en-US'') (Content [0x52, 0x49, 0x46, 0x46, 1, 2])) None
     \<in> set (events (process_and_translate (sample_env 10000 [''hello '', ''world'']) [1, 2] ''en-US''))
   \<and> \<not> enable_automatic_punctuation (short_config ''en-US'') \<and>
   Call (LongRunningRecognize (long_config ''hi-IN'')
           (Uri ''gs://bucket-for-translator-462605/audio-uploads/temp-1700000000.wav'')) None
     \<in> set (events (process_and_translate (sample_env 90000 [''namaste'']) [3] ''hi-IN''))
   \<and> enable_automatic_punctuation (long_config ''hi-IN'')"
proof -
  have a: "Call (Recognize (short_config ''en-US'') (Content [0x52, 0x49, 0x46, 0x46, 1, 2])) None
     \<in> set (events (process_and_translate (sample_env 10000 [''hello '', ''world'']) [1, 2] ''en-US''))"
    by (simp add: sample_short_run events_pair)
  have b: "Call (LongRunningRecognize (long_config ''hi-IN'')
           (Uri ''gs://bucket-for-translator-462605/audio-uploads/temp-1700000000.wav'')) None
     \<in> set (events (process_and_translate (sample_env 90000 [''namaste'']) [3] ''hi-IN''))"
    by (simp add: sample_long_run events_pair)
  from a branches_differ_in_punctuation
    [of "sample_env 10000 [''hello '', ''world'']" "[1, 2]" "''en-US''"]
  have c: "\<not> enable_automatic_punctuation (short_config ''en-US'')" by blast
  from b branches_differ_in_punctuation [of "sample_env 90000 [''namaste'']" "[3]" "''hi-IN''"]
  have d: "enable_automatic_punctuation (long_config ''hi-IN'')" by blast
  from a b c d show ?thesis by blast
qed






text \<open>
  C4. The transcript of line 77 is the concatenation, in the order of the response and
  with nothing in between, of the transcript of the first alternative of each result
  (each result having one). A request that returns a transcript returns this
  concatenation for the response of the branch it took: the answer of \<open>recognize\<close> on the
  short branch, the result of the long-running operation on the long one.
\<close>

theorem transcript_is_concatenation:
  "(list_all (\<lambda>r. alternatives r \<noteq> []) (results response) \<longrightarrow>
      join_transcripts ierr (results response) =
        Inr (concat (map (\<lambda>r. transcript (hd (alternatives r))) (results response)))) \<and>
   (\<forall>tr x y. outcome (process_and_translate env audio_bytes source_lang_code)
        = Returned (Some tr, x, y) \<longrightarrow>
      (\<exists>seg content resp.
         outcome (normalize env audio_bytes) = Returned (seg, content) \<and>
         (if duration_seconds seg < 60
          then recognize env (short_config source_lang_code) (Content content) = Inr resp
          else \<exists>opn. long_running_recognize env (long_config source_lang_code)
                        (Uri (''gs://'' @ BUCKET_NAME @ ''/'' @ temp_blob_name (time_time env)))
                        = Inr opn \<and>
                     operation_result env opn (Some 900) = Inr resp) \<and>
         tr = concat (map (\<lambda>r. transcript (hd (alternatives r))) (results resp))))"
proof -
  have "\<exists>seg content resp.
         outcome (normalize env audio_bytes) = Returned (seg, content) \<and>
         (if duration_seconds seg < 60
          then recognize env (short_config source_lang_code) (Content content) = Inr resp
          else \<exists>opn. long_running_recognize env (long_config source_lang_code)
                        (Uri (''gs://'' @ BUCKET_NAME @ ''/'' @ temp_blob_name (time_time env)))
                        = Inr opn \<and>
                     operation_result env opn (Some 900) = Inr resp) \<and>
         tr = concat (map (\<lambda>r. transcript (hd (alternatives r))) (results resp))"
    if "outcome (process_and_translate env audio_bytes source_lang_code) = Returned (Some tr, x, y)"
    for tr x y
  proof -
    from process_returned_transcript [OF that] obtain seg c resp
      where n: "outcome (normalize env audio_bytes) = Returned (seg, c)"
        and t: "outcome (transcribe env seg c source_lang_code) = Returned resp"
        and j: "join_transcripts (index_error_text env) (results resp) = Inr tr"
      by blast
    from join_transcripts_Inr [OF j]
    have "tr = concat (map (\<lambda>r. transcript (hd (alternatives r))) (results resp))" by simp
    with n transcribe_Returned [OF t] show ?thesis by blast
  qed
  then show ?thesis by (simp add: join_transcripts_total)
qed

theorem transcript_is_concatenation_witness:
  "list_all (\<lambda>r. alternatives r \<noteq> []) (results (sample_response [''hello '', ''world''])) \<and>
   join_transcripts ''list index out of range'' (results (sample_response [''hello '', ''world'']))
     = Inr ''hello world'' \<and>
   outcome (process_and_translate (sample_env 10000 [''hello '', ''world'']) [1, 2] ''en-US'')
     = Returned (Some ''hello world'', Some ''vanakkam'', Some [0x49, 0x44, 0x33])"
proof -
  have a: "list_all (\<lambda>r. alternatives r \<noteq> []) (results (sample_response [''hello '', ''world'']))"
    by (simp add: sample_response_def)
  have c: "concat (map (\<lambda>r. transcript (hd (alternatives r)))
             (results (sample_response [''hello '', ''world'']))) = ''hello world''"
    by (simp add: sample_response_def)
  from a transcript_is_concatenation
    [of "sample_response [''hello '', ''world'']" "''list index out of range''"]
  have "join_transcripts ''list index out of range''
          (results (sample_response [''hello '', ''world''])) =
        Inr (concat (map (\<lambda>r. transcript (hd (alternatives r)))
               (results (sample_response [''hello '', ''world'']))))"
    by blast
  with c have b: "join_transcripts ''list index out of range''
      (results (sample_response [''hello '', ''world''])) = Inr ''hello world''"
    by simp
  have d: "outcome (process_and_translate (sample_env 10000 [''hello '', ''world'']) [1, 2] ''en-US'')
     = Returned (Some ''hello world'', Some ''vanakkam'', Some [0x49, 0x44, 0x33])"
    by (simp add: sample_short_run outcome_pair)
  from a b d show ?thesis by blast
qed

text \<open>
  C6. A request always returns: no exception leaves \<open>process_and_translate\<close>. When a
  service call of the request (transcription, storage, translation or synthesis) is
  answered with a fault, the request ends with the error message that carries the text of
  that fault, returns no transcript, no translation and no audio, and the page shows no
  result widget after it.
\<close>

theorem service_fault_is_caught:
  "(\<exists>r. outcome (process_and_translate env audio_bytes source_lang_code) = Returned r) \<and>
   (\<forall>c t e. Call c t \<in> set (events (process_and_translate env audio_bytes source_lang_code)) \<and>
        fault_of env c t = Some e \<longrightarrow>
      process_and_translate env audio_bytes source_lang_code =
        (events (process_body env audio_bytes source_lang_code) @
           [StError (''An error occurred during processing: '' @ exc_str e)],
         Returned (None, None, None)) \<and>
      io_bind (process_and_translate env audio_bytes source_lang_code) show_results =
        (events (process_and_translate env audio_bytes source_lang_code), Returned ()) \<and>
      \<not> list_ex is_result_widget
          (events (io_bind (process_and_translate env audio_bytes source_lang_code) show_results)))"
proof -
  have "process_and_translate env audio_bytes source_lang_code =
        (events (process_body env audio_bytes source_lang_code) @
           [StError (''An error occurred during processing: '' @ exc_str e)],
         Returned (None, None, None)) \<and>
      io_bind (process_and_translate env audio_bytes source_lang_code) show_results =
        (events (process_and_translate env audio_bytes source_lang_code), Returned ()) \<and>
      \<not> list_ex is_result_widget
          (events (io_bind (process_and_translate env audio_bytes source_lang_code) show_results))"
    if c: "Call c t \<in> set (events (process_and_translate env audio_bytes source_lang_code))"
      and f: "fault_of env c t = Some e" for c t e
  proof -
    have r: "outcome (process_body env audio_bytes source_lang_code) = Raised e"
      by (rule process_body_fault [OF c f])
    have p: "process_and_translate env audio_bytes source_lang_code =
        (events (process_body env audio_bytes source_lang_code) @
           [StError (''An error occurred during processing: '' @ exc_str e)],
         Returned (None, None, None))"
      by (rule process_raised [OF r])
    have o: "outcome (process_and_translate env audio_bytes source_lang_code)
        = Returned (None, None, None)"
      using r by (simp add: outcome_process_and_translate)
    have s: "io_bind (process_and_translate env audio_bytes source_lang_code) show_results =
        (events (process_and_translate env audio_bytes source_lang_code), Returned ())"
      by (rule show_nothing [OF o])
    have "\<not> list_ex is_result_widget
          (events (io_bind (process_and_translate env audio_bytes source_lang_code) show_results))"
      using process_no_result_widget [of env audio_bytes source_lang_code]
      by (simp add: s events_pair)
    with p s show ?thesis by blast
  qed
  with process_always_returns [of env audio_bytes source_lang_code] show ?thesis by blast
qed

theorem service_fault_is_caught_witness:
  "Call (Translate ''hello'' ''ta'' None) None
     \<in> set (events (process_and_translate (translate_down 10000) [1, 2] ''en-US'')) \<and>
   fault_of (translate_down 10000) (Translate ''hello'' ''ta'' None) None = Some unavailable \<and>
   io_bind (process_and_translate (translate_down 10000) [1, 2] ''en-US'') show_results =
     (events (process_and_translate (translate_down 10000) [1, 2] ''en-US''), Returned ()) \<and>
   last (events (process_and_translate (translate_down 10000) [1, 2] ''en-US'')) =
     StError ''An error occurred during processing: 503 backend down''"
proof -
  have a: "Call (Translate ''hello'' ''ta'' None) None
     \<in> set (events (process_and_translate (translate_down 10000) [1, 2] ''en-US''))"
    by (simp add: translate_down_run events_pair)
  have b: "fault_of (translate_down 10000) (Translate ''hello'' ''ta'' None) None = Some unavailable"
    by (simp add: translate_down_def raised_def sample_env_def)
  from a b service_fault_is_caught [of "translate_down 10000" "[1, 2]" "''en-US''"]
  have c: "io_bind (process_and_translate (translate_down 10000) [1, 2] ''en-US'') show_results =
     (events (process_and_translate (translate_down 10000) [1, 2] ''en-US''), Returned ())"
    by blast
  have d: "last (events (process_and_translate (translate_down 10000) [1, 2] ''en-US'')) =
     StError ''An error occurred during processing: 503 backend down''"
    by (simp add: translate_down_run events_pair)
  from a b c d show ?thesis by blast
qed

text \<open>
  C2. When the transcript joined from the response is the empty string, the request ends
  with the warning \<open>Could not recognize speech. Please try again.\<close>, returns no result,
  has made no translation and no synthesis call, and the page shows nothing more. Every
  translation call a request does make is for a non-empty transcript.
\<close>

theorem empty_transcript_short_circuits:
  "(\<forall>seg content response.
      outcome (normalize env audio_bytes) = Returned (seg, content) \<and>
      outcome (transcribe env seg content source_lang_code) = Returned response \<and>
      join_transcripts (index_error_text env) (results response) = Inr [] \<longrightarrow>
        process_and_translate env audio_bytes source_lang_code =
          (StWrite ''1. Processing audio...'' #
           events (transcribe env seg content source_lang_code) @
           [StWarning ''Could not recognize speech. Please try again.''],
           Returned (None, None, None)) \<and>
        \<not> list_ex is_downstream_call
            (events (process_and_translate env audio_bytes source_lang_code)) \<and>
        io_bind (process_and_translate env audio_bytes source_lang_code) show_results =
          (events (process_and_translate env audio_bytes source_lang_code), Returned ())) \<and>
   (\<forall>v tgt src t. Call (Translate v tgt src) t
        \<in> set (events (process_and_translate env audio_bytes source_lang_code)) \<longrightarrow>
      v \<noteq> [])"
proof -
  have first: "process_and_translate env audio_bytes source_lang_code =
          (StWrite ''1. Processing audio...'' #
           events (transcribe env seg content source_lang_code) @
           [StWarning ''Could not recognize speech. Please try again.''],
           Returned (None, None, None)) \<and>
        \<not> list_ex is_downstream_call
            (events (process_and_translate env audio_bytes source_lang_code)) \<and>
        io_bind (process_and_translate env audio_bytes source_lang_code) show_results =
          (events (process_and_translate env audio_bytes source_lang_code), Returned ())"
    if n: "outcome (normalize env audio_bytes) = Returned (seg, content)"
      and t: "outcome (transcribe env seg content source_lang_code) = Returned response"
      and j: "join_transcripts (index_error_text env) (results response) = Inr []"
    for seg content response
  proof -
    have f: "finish_request env response =
        ([StWarning ''Could not recognize speech. Please try again.''], Returned (None, None, None))"
      by (rule finish_request_empty [OF j])
    have ob: "outcome (process_body env audio_bytes source_lang_code) = Returned (None, None, None)"
      using n t f by (simp add: outcome_process_body outcome_pair)
    have eb: "events (process_body env audio_bytes source_lang_code) =
        StWrite ''1. Processing audio...'' #
        events (transcribe env seg content source_lang_code) @
        [StWarning ''Could not recognize speech. Please try again.'']"
      using n t f by (simp add: events_process_body events_pair)
    have ev: "events (process_and_translate env audio_bytes source_lang_code) =
        StWrite ''1. Processing audio...'' #
        events (transcribe env seg content source_lang_code) @
        [StWarning ''Could not recognize speech. Please try again.'']"
      using ob eb by (simp add: events_process_and_translate)
    have ou: "outcome (process_and_translate env audio_bytes source_lang_code)
        = Returned (None, None, None)"
      using ob by (simp add: outcome_process_and_translate)
    have p: "process_and_translate env audio_bytes source_lang_code =
          (StWrite ''1. Processing audio...'' #
           events (transcribe env seg content source_lang_code) @
           [StWarning ''Could not recognize speech. Please try again.''],
           Returned (None, None, None))"
      using io_eq [of "process_and_translate env audio_bytes source_lang_code"] ev ou by simp
    have d: "\<not> list_ex is_downstream_call
            (events (process_and_translate env audio_bytes source_lang_code))"
      using transcribe_no_downstream_call [of env seg content source_lang_code]
      by (simp add: ev)
    from p d show_nothing [OF ou] show ?thesis by blast
  qed
  have second: "v \<noteq> []"
    if "Call (Translate v tgt src) t
          \<in> set (events (process_and_translate env audio_bytes source_lang_code))"
    for v tgt src t
    using process_calls [OF that] by (auto dest!: transcribe_calls finish_request_calls)
  from first second show ?thesis by blast
qed

theorem empty_transcript_short_circuits_witness:
  "outcome (normalize (sample_env 10000 []) [1, 2]) =
     Returned (\<lparr>channels = 1, frame_rate = 16000, sample_width = 2, seg_len = 10000,
                raw_data = [1, 2]\<rparr>, [0x52, 0x49, 0x46, 0x46, 1, 2]) \<and>
   outcome (transcribe (sample_env 10000 [])
              \<lparr>channels = 1, frame_rate = 16000, sample_width = 2, seg_len = 10000,
               raw_data = [1, 2]\<rparr> [0x52, 0x49, 0x46, 0x46, 1, 2] ''en-US'') =
     Returned (sample_response []) \<and>
   join_transcripts (index_error_text (sample_env 10000 [])) (results (sample_response [])) = Inr [] \<and>
   \<not> list_ex is_downstream_call (events (process_and_translate (sample_env 10000 []) [1, 2] ''en-US'')) \<and>
   last (events (process_and_translate (sample_env 10000 []) [1, 2] ''en-US'')) =
     StWarning ''Could not recognize speech. Please try again.''"
proof -
  let ?s = "\<lparr>channels = 1, frame_rate = 16000, sample_width = 2, seg_len = 10000,
             raw_data = [1, 2]\<rparr>"
  have n: "outcome (normalize (sample_env 10000 []) [1, 2]) =
     Returned (?s, [0x52, 0x49, 0x46, 0x46, 1, 2])"
    by (simp add: sample_normalize)
  have t: "outcome (transcribe (sample_env 10000 []) ?s [0x52, 0x49, 0x46, 0x46, 1, 2] ''en-US'') =
     Returned (sample_response [])"
    by (simp add: transcribe_short duration_seconds_def outcome_pair sample_env_def)
  have j: "join_transcripts (index_error_text (sample_env 10000 [])) (results (sample_response []))
     = Inr []"
    by (simp add: sample_response_def)
  from n t j empty_transcript_short_circuits [of "sample_env 10000 []" "[1, 2]" "''en-US''"]
  have p: "process_and_translate (sample_env 10000 []) [1, 2] ''en-US'' =
          (StWrite ''1. Processing audio...'' #
           events (transcribe (sample_env 10000 []) ?s [0x52, 0x49, 0x46, 0x46, 1, 2] ''en-US'') @
           [StWarning ''Could not recognize speech. Please try again.''],
           Returned (None, None, None))"
    and d: "\<not> list_ex is_downstream_call
       (events (process_and_translate (sample_env 10000 []) [1, 2] ''en-US''))"
    by blast+
  have l: "last (events (process_and_translate (sample_env 10000 []) [1, 2] ''en-US'')) =
     StWarning ''Could not recognize speech. Please try again.''"
    by (simp add: p events_pair)
  from n t j d l show ?thesis by blast
qed

text \<open>
  C5. With pydub doing what \<open>set_channels\<close> and \<open>set_frame_rate\<close> promise, the segment the
  normalizer produces has one channel and 16000 Hz, and the bytes a request hands to the
  speech service, inline on the short branch and through the bucket on the long one, are
  exactly the WAV export of that segment. Every recognition configuration declares
  LINEAR16 at 16000 Hz, and the URI of a long-running call names the blob that received
  those bytes. When the normalizer fails, no audio is sent at all.
\<close>

theorem transcription_gets_normalized_audio:
  assumes "pydub_contract env"
  shows "(\<forall>seg content. outcome (normalize env audio_bytes) = Returned (seg, content) \<longrightarrow>
            channels seg = 1 \<and> frame_rate seg = 16000 \<and>
            export env seg ''wav'' = Inr content \<and>
            audio_sent (events (process_and_translate env audio_bytes source_lang_code))
              = [content]) \<and>
         ((\<forall>p. outcome (normalize env audio_bytes) \<noteq> Returned p) \<longrightarrow>
            audio_sent (events (process_and_translate env audio_bytes source_lang_code)) = []) \<and>
         (\<forall>cfg a t. Call (Recognize cfg a) t
                \<in> set (events (process_and_translate env audio_bytes source_lang_code)) \<or>
              Call (LongRunningRecognize cfg a) t
                \<in> set (events (process_and_translate env audio_bytes source_lang_code)) \<longrightarrow>
            encoding cfg = LINEAR16 \<and> sample_rate_hertz cfg = 16000) \<and>
         (\<forall>cfg a t. Call (LongRunningRecognize cfg a) t
                \<in> set (events (process_and_translate env audio_bytes source_lang_code)) \<longrightarrow>
            (\<exists>blob content.
               a = Uri (''gs://'' @ BUCKET_NAME @ ''/'' @ blob) \<and>
               upload_from_string env BUCKET_NAME blob content ''audio/wav'' = Inr () \<and>
               audio_sent (events (process_and_translate env audio_bytes source_lang_code))
                 = [content]))"
proof -
  have one: "channels seg = 1 \<and> frame_rate seg = 16000 \<and>
            export env seg ''wav'' = Inr content \<and>
            audio_sent (events (process_and_translate env audio_bytes source_lang_code))
              = [content]"
    if n: "outcome (normalize env audio_bytes) = Returned (seg, content)" for seg content
  proof -
    from normalize_Returned [OF n] obtain d m
      where m: "set_channels env 1 d = Inr m"
        and s: "set_frame_rate env 16000 m = Inr seg"
        and x: "export env seg ''wav'' = Inr content"
      by blast
    from assms m have "channels m = 1" by (auto simp: pydub_contract_def)
    moreover from assms s have "frame_rate seg = 16000 \<and> channels seg = channels m"
      by (auto simp: pydub_contract_def)
    ultimately show ?thesis using x n by (simp add: audio_sent_process)
  qed
  have two: "audio_sent (events (process_and_translate env audio_bytes source_lang_code)) = []"
    if "\<forall>p. outcome (normalize env audio_bytes) \<noteq> Returned p"
    using that by (cases "outcome (normalize env audio_bytes)") (auto simp: audio_sent_process)
  have three: "encoding cfg = LINEAR16 \<and> sample_rate_hertz cfg = 16000"
    if "Call (Recognize cfg a) t
          \<in> set (events (process_and_translate env audio_bytes source_lang_code)) \<or>
        Call (LongRunningRecognize cfg a) t
          \<in> set (events (process_and_translate env audio_bytes source_lang_code))" for cfg a t
    using that
    by (auto dest!: process_calls transcribe_calls finish_request_calls
        simp: short_config_def long_config_def)
  have four: "\<exists>blob content.
               a = Uri (''gs://'' @ BUCKET_NAME @ ''/'' @ blob) \<and>
               upload_from_string env BUCKET_NAME blob content ''audio/wav'' = Inr () \<and>
               audio_sent (events (process_and_translate env audio_bytes source_lang_code))
                 = [content]"
    if c: "Call (LongRunningRecognize cfg a) t
          \<in> set (events (process_and_translate env audio_bytes source_lang_code))" for cfg a t
  proof -
    from process_calls [OF c] obtain seg c0
      where n: "outcome (normalize env audio_bytes) = Returned (seg, c0)"
        and tr: "Call (LongRunningRecognize cfg a) t
                  \<in> set (events (transcribe env seg c0 source_lang_code))"
      by (auto dest!: finish_request_calls)
    have long: "\<not> duration_seconds seg < 60"
      using transcribe_calls [OF tr] by auto
    have "a = Uri (''gs://'' @ BUCKET_NAME @ ''/'' @ temp_blob_name (time_time env)) \<and>
          upload_from_string env BUCKET_NAME (temp_blob_name (time_time env)) c0 ''audio/wav''
            = Inr ()"
      using tr long
      by (auto simp: transcribe_long events_pair Let_def split: sum.splits)
    with n show ?thesis by (auto simp: audio_sent_process)
  qed
  from one two three four show ?thesis by blast
qed

theorem transcription_gets_normalized_audio_witness:
  "pydub_contract (sample_env 90000 [''namaste'']) \<and>
   outcome (normalize (sample_env 90000 [''namaste'']) [3]) =
     Returned (\<lparr>channels = 1, frame_rate = 16000, sample_width = 2, seg_len = 90000,
                raw_data = [3]\<rparr>, [0x52, 0x49, 0x46, 0x46, 3]) \<and>
   audio_sent (events (process_and_translate (sample_env 90000 [''namaste'']) [3] ''hi-IN''))
     = [[0x52, 0x49, 0x46, 0x46, 3]]"
proof -
  have n: "outcome (normalize (sample_env 90000 [''namaste'']) [3]) =
     Returned (\<lparr>channels = 1, frame_rate = 16000, sample_width = 2, seg_len = 90000,
                raw_data = [3]\<rparr>, [0x52, 0x49, 0x46, 0x46, 3])"
    by (simp add: sample_normalize)
  from n transcription_gets_normalized_audio
    [OF sample_pydub_contract, of 90000 "[''namaste'']" "[3]" "''hi-IN''"]
  have "audio_sent (events (process_and_translate (sample_env 90000 [''namaste'']) [3] ''hi-IN''))
     = [[0x52, 0x49, 0x46, 0x46, 3]]"
    by blast
  with n sample_pydub_contract show ?thesis by blast
qed




text \<open>
  C8, as the claim states it, fails: the name does not keep uploads apart. Two requests a
  half second apart, with different audio, write to the same blob.
\<close>

theorem blob_name_collision_counterexample:
  "(6800000001 / 4 :: rat) \<noteq> 6800000003 / 4 \<and>
   Call (UploadFromString ''bucket-for-translator-462605'' ''audio-uploads/temp-1700000000.wav''
           [0x52, 0x49, 0x46, 0x46, 3] ''audio/wav'') None
     \<in> set (events (process_and_translate (sample_env_at (6800000001 / 4)) [3] ''hi-IN'')) \<and>
   Call (UploadFromString ''bucket-for-translator-462605'' ''audio-uploads/temp-1700000000.wav''
           [0x52, 0x49, 0x46, 0x46, 4] ''audio/wav'') None
     \<in> set (events (process_and_translate (sample_env_at (6800000003 / 4)) [4] ''hi-IN''))"
  by (simp add: sample_upload_quarter sample_upload_three_quarters)

text \<open>
  C8, amended. Every object a request writes goes to the one bucket under the name
  \<open>audio-uploads/temp-<n>.wav\<close>, with \<open>n\<close> the Unix time truncated to whole seconds, as
  \<open>audio/wav\<close>; the stager issues that one write and returns \<open>gs://<bucket>/<name>\<close>. Two
  uploads get the same name exactly when their times agree in whole seconds.
\<close>

theorem blob_name_from_whole_seconds:
  "(\<forall>bucket blob content ctype t.
      Call (UploadFromString bucket blob content ctype) t
        \<in> set (events (process_and_translate env audio_bytes source_lang_code)) \<longrightarrow>
      bucket = BUCKET_NAME \<and>
      blob = ''audio-uploads/temp-'' @ str_int (py_int (time_time env)) @ ''.wav'' \<and>
      ctype = ''audio/wav'') \<and>
   upload_to_gcs env data name =
     ([Call (UploadFromString BUCKET_NAME name data ''audio/wav'') None],
      case upload_from_string env BUCKET_NAME name data ''audio/wav'' of
        Inl e \<Rightarrow> Raised e
      | Inr u \<Rightarrow> Returned (''gs://'' @ BUCKET_NAME @ ''/'' @ name)) \<and>
   (temp_blob_name t1 = temp_blob_name t2 \<longleftrightarrow> py_int t1 = py_int t2)"
proof -
  have "bucket = BUCKET_NAME \<and>
      blob = ''audio-uploads/temp-'' @ str_int (py_int (time_time env)) @ ''.wav'' \<and>
      ctype = ''audio/wav''"
    if "Call (UploadFromString bucket blob content ctype) t
        \<in> set (events (process_and_translate env audio_bytes source_lang_code))"
    for bucket blob content ctype t
    using process_calls [OF that]
    by (auto dest!: transcribe_calls finish_request_calls simp: temp_blob_name_def)
  then show ?thesis
    by (simp add: upload_to_gcs_eq temp_blob_name_eq_iff)
qed

theorem blob_name_from_whole_seconds_witness:
  "Call (UploadFromString ''bucket-for-translator-462605'' ''audio-uploads/temp-1700000000.wav''
           [0x52, 0x49, 0x46, 0x46, 3] ''audio/wav'') None
     \<in> set (events (process_and_translate (sample_env 90000 [''namaste'']) [3] ''hi-IN'')) \<and>
   ''audio-uploads/temp-1700000000.wav'' =
     ''audio-uploads/temp-'' @ str_int (py_int (time_time (sample_env 90000 [''namaste''])))
       @ ''.wav''"
proof -
  have a: "Call (UploadFromString ''bucket-for-translator-462605''
           ''audio-uploads/temp-1700000000.wav'' [0x52, 0x49, 0x46, 0x46, 3] ''audio/wav'') None
     \<in> set (events (process_and_translate (sample_env 90000 [''namaste'']) [3] ''hi-IN''))"
    by (simp add: sample_long_run events_pair)
  from a blob_name_from_whole_seconds [of "sample_env 90000 [''namaste'']" "[3]" "''hi-IN''"]
  have "''audio-uploads/temp-1700000000.wav'' =
     ''audio-uploads/temp-'' @ str_int (py_int (time_time (sample_env 90000 [''namaste''])))
       @ ''.wav''"
    by blast
  with a show ?thesis by blast
qed

end
